theory Spec2Isabelle
  imports Complex_Main "HOL-Library.Sublist"
begin

section \<open>Python values used by Atlas\_demo.py\<close>

text \<open>
  The program is a single Streamlit script. Python \<open>str\<close> is modelled as \<open>string\<close>,
  Python \<open>int\<close> as \<open>int\<close>, Python \<open>float\<close> as \<open>real\<close> (only comparisons and the
  ranges of drawn values are used), a raised exception as a value of \<open>py_error\<close>.
  The non-ASCII symbols (pictographs, bullets) that decorate user-interface texts are left
  out of the string literals, with the space that follows them; every other character of
  a one-line literal is the source's.
\<close>

datatype py_error =
    KeyError string
  | IndexError
  | ValueError
  | AttributeError string

text \<open>The values stored in the dictionaries of the dialogue catalog.\<close>

datatype py_value = Str string | StrList "string list"

type_synonym py_dict = "(string \<times> py_value) list"

text \<open>\<open>d[k]\<close> on a dictionary: raises \<open>KeyError\<close> when the key is missing.\<close>

definition getitem :: "py_dict \<Rightarrow> string \<Rightarrow> py_error + py_value" where
  "getitem d k = (case map_of d k of None \<Rightarrow> Inl (KeyError k) | Some v \<Rightarrow> Inr v)"

text \<open>\<open>xs[i]\<close> on a list: negative indices count from the end, out of range raises.\<close>

definition list_getitem :: "'a list \<Rightarrow> int \<Rightarrow> py_error + 'a" where
  "list_getitem xs i =
     (if 0 \<le> i \<and> i < int (length xs) then Inr (xs ! nat i)
      else if i < 0 \<and> - int (length xs) \<le> i then Inr (xs ! nat (int (length xs) + i))
      else Inl IndexError)"

text \<open>\<open>needle in haystack\<close> on strings: the needle occurs as a contiguous run.\<close>

fun str_contains :: "string \<Rightarrow> string \<Rightarrow> bool" where
  "str_contains needle [] = (needle = [])"
| "str_contains needle (c # cs) = (prefix needle (c # cs) \<or> str_contains needle cs)"

text \<open>
  \<open>c.isspace()\<close> for a character with code point below 256: the ASCII white space
  (tab, line feed, vertical tab, form feed, carriage return, the four separators
  0x1C-0x1F, space), next line 0x85 and no-break space 0xA0.
\<close>

definition isspace :: "char \<Rightarrow> bool" where
  "isspace c \<longleftrightarrow>
     of_char c \<in> {9, 10, 11, 12, 13, 28, 29, 30, 31, 32, 133, 160 :: nat}"

text \<open>\<open>s.strip()\<close>: leading and trailing white space removed.\<close>

definition strip :: "string \<Rightarrow> string" where
  "strip s = rev (dropWhile isspace (rev (dropWhile isspace s)))"

text \<open>
  \<open>s.split(sep)\<close> for a non-empty separator (the script only splits on the literals
  \<open>'\n'\<close> and \<open>' - '\<close>): the text is scanned from the left, every occurrence of
  the separator closes the current piece, and the last piece is always returned, so the
  result is never empty. \<open>cur\<close> holds the current piece, reversed.
\<close>

function split_from :: "string \<Rightarrow> string \<Rightarrow> string \<Rightarrow> string list" where
  "split_from sep cur [] = [rev cur]"
| "split_from sep cur (c # cs) =
     (if sep \<noteq> [] \<and> prefix sep (c # cs)
      then rev cur # split_from sep [] (drop (length sep) (c # cs))
      else split_from sep (c # cur) cs)"
  by pat_completeness auto
termination
  by (relation "measure (\<lambda>(sep, cur, s). length s)") auto

definition split :: "string \<Rightarrow> string \<Rightarrow> string list" where
  "split s sep = split_from sep [] s"

text \<open>\<open>sep.join(xs)\<close>.\<close>

fun join :: "string \<Rightarrow> string list \<Rightarrow> string" where
  "join sep [] = []"
| "join sep [x] = x"
| "join sep (x # y # ys) = x @ sep @ join sep (y # ys)"

section \<open>Rendered output and session state\<close>

text \<open>
  One constructor per Streamlit call the script issues (a chart is recorded with its
  rows and its title); a container
  (\<open>st.chat_message\<close>, \<open>st.expander\<close>) holds the elements written inside its
  \<open>with\<close> block. Column layout (\<open>st.columns\<close>) is not recorded.
\<close>

datatype element =
    Header string
  | Subheader string
  | Markdown string
  | Write py_value
  | Info py_value
  | Success string
  | Warning string
  | Selectbox string "string list"
  | Button string
  | Radio string py_value
  | Text_area string
  | Chat_message string "element list"
  | Expander string "element list"
  | Balloons
  | Bar_chart "(string \<times> real) list" string
  | Pie_chart "real list" "string list" string
  | Line_chart "(string \<times> real) list" string

text \<open>How a run of the script ends: normally, by \<open>st.rerun()\<close>, or by an exception.\<close>

datatype outcome = Finished | Rerun | Raised py_error

text \<open>
  The dictionary stored under \<open>assignment_data\<close> on submission (lines 176-184), one
  field per key.
\<close>

record assignment_data =
  data_title :: string
  data_objectives :: "string list"
  data_required_resources :: "string list"
  data_optional_resources :: "string list"
  data_ai_name :: string
  data_guidance_level :: string
  data_delivery_formats :: "string list"

text \<open>
  \<open>st.session_state\<close>, lines 17-24. \<open>assignment_data\<close> is \<open>None\<close> for the
  initial empty dictionary.
\<close>

record session_state =
  assignment_created :: bool
  assignment_data :: "assignment_data option"
  student_dialogue_step :: int
  student_responses :: "int \<rightharpoonup> string"

definition initial_session_state :: session_state where
  "initial_session_state =
     \<lparr> assignment_created = False, assignment_data = None,
       student_dialogue_step = 0, student_responses = Map.empty \<rparr>"

section \<open>The student experience view (lines 220-347)\<close>

text \<open>
  A button returns \<open>True\<close> only in the run its click triggers, so at most one of the
  two buttons of the view is pressed in a run. \<open>step_value\<close> is the value of the input
  widget keyed \<open>step_{current_step}\<close> (the radio of steps 0 and 2, the text area of
  step 3).
\<close>

datatype button = Reset_Conversation | Next_Step

record student_widgets =
  selected_student :: string
  clicked :: "button option"
  step_value :: string

definition dialogue_steps :: "string \<Rightarrow> py_dict list" where
  "dialogue_steps sel =
   [ [ (''type'', Str ''ai_intro''),
       (''content'', Str (''Hi '' @ sel @ ''! I'm Professor Explorer, your AI learning partner. Today we're diving into the causes of the Great Depression. I see you have some great resources to work with. What catches your attention first?'')),
       (''options'', StrList [''The photographs of bread lines'', ''Economic data and graphs'', ''Personal stories from families'']) ],
     [ (''type'', Str ''content_delivery''),
       (''content'', Str ''Great choice! Let's start there. I'm going to share some key information in small chunks, and I want you to think out loud as we go. Ready?''),
       (''info_chunk'', Str ''The Great Depression began with the stock market crash of October 1929, but the roots went much deeper. Think of it like a house of cards - multiple factors were already making the economic structure unstable.'') ],
     [ (''type'', Str ''comprehension_check''),
       (''question'', Str ''What do you think 'house of cards' means in this context?''),
       (''options'', StrList [''The economy was built on gambling'', ''The economic system was fragile and interconnected'', ''People were literally playing cards'', ''Banks were like card games'']) ],
     [ (''type'', Str ''deeper_exploration''),
       (''content'', Str ''Exactly! The economy was fragile and interconnected. Now, let's explore what made it so unstable. What factors do you think might have contributed?''),
       (''follow_up'', Str ''Think about: How people were buying things, what was happening in agriculture, how banks were operating...'') ],
     [ (''type'', Str ''reflection''),
       (''content'', Str ''You've made some great connections! Now I want you to step back and reflect on your learning process.''),
       (''prompts'', StrList [''What surprised you most?'', ''What questions do you still have?'', ''How does this connect to something you already knew?'']) ] ]"

text \<open>
  Lines 325-345: the synthetic report shown in the expander of the reflection step, line
  by line; the indentation and the blank lines of the source's literal are not
  reproduced.
\<close>

definition teacher_report :: "string \<Rightarrow> string" where
  \<open>teacher_report sel =
     ''**'' @ sel @ '''s Learning Journey Report**\<newline>'' @
     ''**Engagement Level**: High - asked follow-up questions and made connections\<newline>'' @
     ''**Objectives Progress**:\<newline>'' @
     ''- Analyze primary sources: 85% mastery \<newline>'' @
     ''- Identify multiple perspectives: 90% mastery\<newline>'' @
     ''- Evaluate evidence quality: 75% mastery\<newline>'' @
     ''**Key Insights**:\<newline>'' @
     ''- Showed strong analytical thinking with "house of cards" metaphor\<newline>'' @
     ''- Made personal connections to family stories\<newline>'' @
     ''- Asked curious questions about modern parallels\<newline>'' @
     ''**AI Support Used**: \<newline>'' @
     ''- Scaffolding: 40%\<newline>'' @
     ''- Student original thinking: 60%\<newline>'' @
     ''**Teacher Notes**: '' @ sel @ '' demonstrated excellent critical thinking and natural curiosity. Consider enrichment opportunities connecting to modern economics.''\<close>

definition report_block :: "string \<Rightarrow> element" where
  "report_block sel =
     Expander ''See what your teacher learns about your process:'' [Markdown (teacher_report sel)]"

definition success_acknowledgment :: element where
  "success_acknowledgment = Success ''Great thinking! You got it!''"

definition corrective_hint :: "element list" where
  "corrective_hint =
     [ Warning ''Hmm, let me help you think about this differently...'',
       Chat_message ''assistant''
         [Write (Str ''Think about what happens when you remove one card from a house of cards. The whole structure can collapse because everything depends on everything else. How might this apply to an economy?'')] ]"

definition completion_message :: element where
  "completion_message =
     Success ''Learning session complete! Great work exploring the Great Depression causes.''"

text \<open>Lines 319-320: one text area per prompt; iterating a \<open>str\<close> yields its characters.\<close>

definition prompt_areas :: "py_value \<Rightarrow> element list" where
  "prompt_areas v =
     (case v of StrList ps \<Rightarrow> map Text_area ps | Str s \<Rightarrow> map (\<lambda>c. Text_area [c]) s)"

text \<open>Lines 285-286, 304-305, 313-314: record the response, then advance the cursor.\<close>

definition record_and_advance :: "int \<Rightarrow> string \<Rightarrow> session_state \<Rightarrow> session_state" where
  "record_and_advance current_step v s =
     s \<lparr> student_responses := (student_responses s)(current_step \<mapsto> v),
         student_dialogue_step := student_dialogue_step s + 1 \<rparr>"

text \<open>Line 291: advance the cursor only.\<close>

definition advance :: "session_state \<Rightarrow> session_state" where
  "advance s = s \<lparr> student_dialogue_step := student_dialogue_step s + 1 \<rparr>"

text \<open>
  The widgets and messages of the five branches, each with the source's labels.
\<close>

definition assistant_message :: "py_value \<Rightarrow> py_value option \<Rightarrow> element" where
  "assistant_message content chunk =
     Chat_message ''assistant''
       (Write content # (case chunk of Some c \<Rightarrow> [Info c] | None \<Rightarrow> []))"

definition ai_intro_widgets :: "py_value \<Rightarrow> element list" where
  "ai_intro_widgets opts =
     [Radio ''What interests you most?'' opts, Button ''Tell Professor Explorer'']"

definition content_delivery_widgets :: "element list" where
  "content_delivery_widgets = [Button ''I'm ready to continue!'']"

definition comprehension_check_widgets :: "py_value \<Rightarrow> element list" where
  "comprehension_check_widgets opts =
     [Radio ''Choose your answer:'' opts, Button ''Submit Answer'']"

definition deeper_exploration_widgets :: "element list" where
  "deeper_exploration_widgets =
     [Text_area ''Share your thoughts:'', Button ''Share with Professor Explorer'']"

definition deeper_exploration_reply :: "string \<Rightarrow> element" where
  "deeper_exploration_reply student_input =
     Chat_message ''assistant''
       [Write (Str (''Interesting ideas! I can see you're thinking about ''
                      @ take 50 student_input
                      @ ''... Let's explore that connection further.''))]"

definition reflection_heading :: element where
  "reflection_heading = Markdown ''### Reflection Time''"

definition reflection_button :: element where
  "reflection_button = Button ''Complete Learning Session''"

definition reflection_success :: element where
  "reflection_success =
     Success ''Great work! Your teacher will receive a detailed report about your learning journey.''"

text \<open>
  Lines 272-345, for the catalog entry \<open>step\<close> found at \<open>current_step\<close>: the assistant
  message, then the branch chosen by \<open>step['type']\<close>. \<open>out\<close> is what the run has
  rendered so far. An exception ends the run with the session state as it is then.
\<close>

definition handle_step ::
  "student_widgets \<Rightarrow> int \<Rightarrow> py_dict \<Rightarrow> element list \<Rightarrow> session_state
     \<Rightarrow> element list \<times> outcome \<times> session_state" where
  "handle_step w current_step step out s =
    (case getitem step ''content'' of
       Inl e \<Rightarrow> (out @ [Chat_message ''assistant'' []], Raised e, s)
     | Inr content \<Rightarrow>
        (let out1 = out @ [assistant_message content (map_of step ''info_chunk'')]
         in case getitem step ''type'' of
              Inl e \<Rightarrow> (out1, Raised e, s)
            | Inr ty \<Rightarrow>
               if ty = Str ''ai_intro'' then
                 (case getitem step ''options'' of
                    Inl e \<Rightarrow> (out1, Raised e, s)
                  | Inr opts \<Rightarrow>
                     (let out2 = out1 @ ai_intro_widgets opts
                      in if clicked w = Some Next_Step
                         then (out2, Rerun, record_and_advance current_step (step_value w) s)
                         else (out2, Finished, s)))
               else if ty = Str ''content_delivery'' then
                 (let out2 = out1 @ content_delivery_widgets
                  in if clicked w = Some Next_Step
                     then (out2, Rerun, advance s)
                     else (out2, Finished, s))
               else if ty = Str ''comprehension_check'' then
                 (case getitem step ''options'' of
                    Inl e \<Rightarrow> (out1, Raised e, s)
                  | Inr opts \<Rightarrow>
                     (let out2 = out1 @ comprehension_check_widgets opts
                      in if clicked w = Some Next_Step
                         then (out2 @
                                 (if str_contains ''fragile and interconnected'' (step_value w)
                                  then [success_acknowledgment] else corrective_hint),
                               Rerun, record_and_advance current_step (step_value w) s)
                         else (out2, Finished, s)))
               else if ty = Str ''deeper_exploration'' then
                 (let out2 = out1 @ deeper_exploration_widgets
                  in if clicked w = Some Next_Step
                     then (out2 @ [deeper_exploration_reply (step_value w)],
                           Rerun, record_and_advance current_step (step_value w) s)
                     else (out2, Finished, s))
               else if ty = Str ''reflection'' then
                 (case getitem step ''prompts'' of
                    Inl e \<Rightarrow> (out1 @ [reflection_heading], Raised e, s)
                  | Inr prompts \<Rightarrow>
                     (let out2 = out1 @ [reflection_heading] @ prompt_areas prompts
                                  @ [reflection_button]
                      in if clicked w = Some Next_Step
                         then (out2 @ [reflection_success, report_block (selected_student w)],
                               Finished, s)
                         else (out2, Finished, s)))
               else (out1, Finished, s)))"

text \<open>Lines 233-235: the reset button's effect.\<close>

definition reset_conversation :: "session_state \<Rightarrow> session_state" where
  "reset_conversation s =
     s \<lparr> student_dialogue_step := 0, student_responses := Map.empty \<rparr>"

text \<open>Lines 221-238: the heading, the student selector, the reset button, the title.\<close>

definition view_heading :: "string \<Rightarrow> element list" where
  "view_heading sel =
     [ Header ''Student Learning Experience'',
       Markdown ''*Experience learning through AI partnership*'',
       Selectbox ''Choose a student perspective:''
         [''Jayla Williams'', ''Jackson Miller'', ''Olivia Chen''],
       Button ''Reset Conversation'',
       Markdown (''### Learning with Professor Explorer - '' @ sel) ]"

text \<open>One run of \<open>show_student_experience\<close> on the widget values \<open>w\<close>.\<close>

definition show_student_experience ::
  "student_widgets \<Rightarrow> session_state \<Rightarrow> element list \<times> outcome \<times> session_state" where
  "show_student_experience w s =
    (let s1 = (if clicked w = Some Reset_Conversation then reset_conversation s else s);
         out1 = view_heading (selected_student w);
         steps = dialogue_steps (selected_student w);
         current_step = student_dialogue_step s1
     in if current_step < int (length steps) then
          (case list_getitem steps current_step of
             Inl e \<Rightarrow> (out1, Raised e, s1)
           | Inr step \<Rightarrow> handle_step w current_step step out1 s1)
        else (out1 @ [completion_message], Finished, s1))"

definition rendered :: "element list \<times> outcome \<times> session_state \<Rightarrow> element list" where
  "rendered r = fst r"

definition outcome_of :: "element list \<times> outcome \<times> session_state \<Rightarrow> outcome" where
  "outcome_of r = fst (snd r)"

definition state_after :: "element list \<times> outcome \<times> session_state \<Rightarrow> session_state" where
  "state_after r = snd (snd r)"

text \<open>
  A session: the script runs once per user action, each run starting from the session
  state the previous one left.
\<close>

fun run_session :: "student_widgets list \<Rightarrow> session_state \<Rightarrow> session_state" where
  "run_session [] s = s"
| "run_session (w # ws) s = run_session ws (state_after (show_student_experience w s))"

text \<open>The invariants stated below, and the concrete inputs they are evaluated on.\<close>

definition w_next :: student_widgets where
  "w_next = \<lparr> selected_student = ''Jayla Williams'', clicked = Some Next_Step,
             step_value = ''Economic data and graphs'' \<rparr>"

definition w_reset :: student_widgets where
  "w_reset = \<lparr> selected_student = ''Jayla Williams'', clicked = Some Reset_Conversation,
             step_value = ''Economic data and graphs'' \<rparr>"

definition cursor_in_range :: "session_state \<Rightarrow> bool" where
  "cursor_in_range s \<longleftrightarrow>
     0 \<le> student_dialogue_step s
     \<and> student_dialogue_step s \<le> int (length (dialogue_steps ''''))"

definition s_done :: session_state where
  "s_done = initial_session_state \<lparr> student_dialogue_step := 5 \<rparr>"

definition w_idle :: student_widgets where
  "w_idle = \<lparr> selected_student = ''Olivia Chen'', clicked = None, step_value = '''' \<rparr>"

definition responses_in_recorded_steps :: "session_state \<Rightarrow> bool" where
  "responses_in_recorded_steps s \<longleftrightarrow>
     0 \<le> student_dialogue_step s \<and> dom (student_responses s) \<subseteq> {0, 2, 3}"

definition s_delivery :: session_state where
  "s_delivery = initial_session_state
     \<lparr> student_dialogue_step := 1,
       student_responses := [0 \<mapsto> ''Economic data and graphs''] \<rparr>"


definition s_check :: session_state where
  "s_check = initial_session_state
     \<lparr> student_dialogue_step := 2,
       student_responses := [0 \<mapsto> ''Economic data and graphs''] \<rparr>"

definition w_answer :: student_widgets where
  "w_answer = \<lparr> selected_student = ''Jayla Williams'', clicked = Some Next_Step,
               step_value = ''The economic system was fragile and interconnected'' \<rparr>"

section \<open>The assignment setup view (lines 97-214)\<close>

text \<open>
  The values of the form's widgets in a run, named as the local variables of
  \<open>show_assignment_setup\<close>; \<open>submitted\<close> is the value of the submit button.
\<close>

record assignment_form =
  title :: string
  preset_objectives :: "string list"
  custom_objectives :: string
  required_resources :: string
  optional_resources :: string
  ai_name :: string
  guidance_level :: string
  delivery_formats :: "string list"
  submitted :: bool

text \<open>
  Lines 171-173: the preset objectives, extended by the stripped non-blank lines of the
  custom text when the custom text is not blank. A string is true when it is not empty.
\<close>

definition all_objectives :: "string list \<Rightarrow> string \<Rightarrow> string list" where
  "all_objectives preset custom =
     (if strip custom \<noteq> []
      then preset @ map strip (filter (\<lambda>obj. strip obj \<noteq> []) (split custom ''\<newline>''))
      else preset)"

text \<open>Lines 179-180: \<open>text.split('\n') if text else []\<close>.\<close>

definition resource_list :: "string \<Rightarrow> string list" where
  "resource_list text = (if text \<noteq> [] then split text ''\<newline>'' else [])"

text \<open>Lines 176-184. The result of \<open>split\<close> is never empty, so \<open>[0]\<close> is its head.\<close>

definition build_assignment_data :: "assignment_form \<Rightarrow> assignment_data" where
  "build_assignment_data f =
     \<lparr> data_title = title f,
       data_objectives = all_objectives (preset_objectives f) (custom_objectives f),
       data_required_resources = resource_list (required_resources f),
       data_optional_resources = resource_list (optional_resources f),
       data_ai_name = ai_name f,
       data_guidance_level = hd (split (guidance_level f) '' - ''),
       data_delivery_formats = delivery_formats f \<rparr>"

text \<open>
  Lines 193-212: the preview text, line by line; the indentation and the blank lines of
  the source's literal are not reproduced. \<open>bullets\<close> is
  \<open>chr(10).join([f"{x}" for x in xs])\<close>, each item after its bullet.
\<close>

definition bullets :: "string list \<Rightarrow> string" where
  "bullets xs = join ''\<newline>'' xs"

definition preview_content :: "assignment_data \<Rightarrow> string" where
  "preview_content d =
     ''## '' @ data_title d @ ''\<newline>'' @
     ''**Your AI Learning Partner: '' @ data_ai_name d @ ''**\<newline>'' @
     ''*Guidance Style: '' @ data_guidance_level d @ ''*\<newline>'' @
     ''### What You'll Learn:\<newline>'' @
     bullets (data_objectives d) @ ''\<newline>'' @
     ''### Resources to Explore:\<newline>'' @
     ''**Required:**'' @ bullets (take 3 (data_required_resources d)) @ ''\<newline>'' @
     ''**For the Curious:**'' @ bullets (take 2 (data_optional_resources d)) @ ''\<newline>'' @
     ''### How You Can Show Your Learning:\<newline>'' @
     bullets (data_delivery_formats d) @ ''\<newline>'' @
     ''---\<newline>'' @
     ''*Ready to start? Your AI partner '' @ data_ai_name d @ '' is waiting to explore with you!*''"

text \<open>
  One run of \<open>show_assignment_setup\<close>: on submission the record is stored and the flag
  set (lines 169-188); the preview is rendered whenever the flag is set (lines 191-214),
  and reading the title of an empty dictionary raises \<open>KeyError\<close>. The form's own
  widgets are not recorded in the output.
\<close>

definition show_assignment_setup ::
  "assignment_form \<Rightarrow> session_state \<Rightarrow> element list \<times> outcome \<times> session_state" where
  "show_assignment_setup f s =
    (let s1 = (if submitted f
               then s \<lparr> assignment_data := Some (build_assignment_data f),
                       assignment_created := True \<rparr>
               else s);
         out1 = (if submitted f
                 then [Success ''Assignment created! Students can now access this through their MindFrame dashboard.'',
                       Balloons]
                 else [])
     in if assignment_created s1
        then (case assignment_data s1 of
                Some d \<Rightarrow> (out1 @ [Markdown (preview_content d)], Finished, s1)
              | None \<Rightarrow> (out1, Raised (KeyError ''title''), s1))
        else (out1, Finished, s1))"

text \<open>
  The objective list as the specification words it: the preset objectives, followed by
  the lines of the custom text (split on newline), each trimmed, blank ones dropped.
\<close>

definition spec_objective_list :: "string list \<Rightarrow> string \<Rightarrow> string list" where
  "spec_objective_list preset custom =
     preset @ filter (\<lambda>line. line \<noteq> []) (map strip (split custom ''\<newline>''))"

definition example_form :: assignment_form where
  "example_form =
     \<lparr> title = ''The Great Depression: Multiple Perspectives'',
       preset_objectives = [''Analyze primary sources'', ''Compare multiple perspectives''],
       custom_objectives = ''A\<newline>\<newline>B\<newline>'',
       required_resources = ''x\<newline>y'',
       optional_resources = '''',
       ai_name = ''Professor Explorer'',
       guidance_level = ''Moderate - Guided discovery with scaffolding'',
       delivery_formats = [''Written analysis'', ''Oral presentation''],
       submitted = True \<rparr>"

definition swapped_form :: assignment_form where
  "swapped_form =
     example_form \<lparr> required_resources := [], optional_resources := ''x\<newline>y'' \<rparr>"


section \<open>The random module\<close>

text \<open>
  The script draws from Python's module \<open>random\<close>, whose code is not part of the
  repository. The module is a parameter of the model: four functions over a generator
  state \<open>'s\<close>, each returning the drawn value and the next state. What the library
  documents of them is \<open>random_contract\<close>: \<open>uniform(a, b)\<close> returns a value between
  \<open>a\<close> and \<open>b\<close>, \<open>randint(a, b)\<close> an integer between \<open>a\<close> and \<open>b\<close>, both ends
  included.
\<close>

record 's random_module =
  uniform :: "real \<Rightarrow> real \<Rightarrow> 's \<Rightarrow> real \<times> 's"
  randint :: "int \<Rightarrow> int \<Rightarrow> 's \<Rightarrow> int \<times> 's"
  sample :: "string list \<Rightarrow> int \<Rightarrow> 's \<Rightarrow> string list \<times> 's"
  choice :: "string list \<Rightarrow> 's \<Rightarrow> string \<times> 's"

definition random_contract :: "'s random_module \<Rightarrow> bool" where
  "random_contract R \<longleftrightarrow>
     (\<forall>a b s. a \<le> b \<longrightarrow> a \<le> fst (uniform R a b s) \<and> fst (uniform R a b s) \<le> b)
     \<and> (\<forall>a b s. a \<le> b \<longrightarrow> a \<le> fst (randint R a b s) \<and> fst (randint R a b s) \<le> b)"

text \<open>
  A computation that draws from the generator and may raise: its value or the error,
  with the generator state it leaves.
\<close>

type_synonym ('a, 's) drawing = "'s \<Rightarrow> (py_error + 'a) \<times> 's"

definition returns :: "('s \<Rightarrow> 'a \<times> 's) \<Rightarrow> ('a, 's) drawing" where
  "returns f s = (case f s of (x, s') \<Rightarrow> (Inr x, s'))"

definition and_then :: "('a, 's) drawing \<Rightarrow> ('a \<Rightarrow> ('b, 's) drawing) \<Rightarrow> ('b, 's) drawing" where
  "and_then m f s = (case m s of (Inl e, s') \<Rightarrow> (Inl e, s') | (Inr x, s') \<Rightarrow> f x s')"

definition result :: "'a \<Rightarrow> ('a, 's) drawing" where
  "result x s = (Inr x, s)"

text \<open>A computation that does not draw: it raises or returns, the generator untouched.\<close>

definition raising :: "py_error + 'a \<Rightarrow> ('a, 's) drawing" where
  "raising r s = (r, s)"

text \<open>\<open>random.sample(population, k)\<close>: \<open>ValueError\<close> when \<open>k\<close> is negative or larger
  than the population.\<close>

definition py_sample :: "'s random_module \<Rightarrow> string list \<Rightarrow> int \<Rightarrow> (string list, 's) drawing" where
  "py_sample R population k =
     (if k < 0 \<or> int (length population) < k then raising (Inl ValueError)
      else returns (sample R population k))"


text \<open>
  A comprehension that draws \<open>random.uniform(a, b)\<close> once per element of \<open>keys\<close>, in
  order, pairing each element with its draw.
\<close>

fun uniform_each :: "'s random_module \<Rightarrow> real \<Rightarrow> real \<Rightarrow> 'k list \<Rightarrow> 's \<Rightarrow> ('k \<times> real) list \<times> 's" where
  "uniform_each R a b [] s = ([], s)"
| "uniform_each R a b (k # ks) s =
     (case uniform R a b s of (v, s1) \<Rightarrow>
        (case uniform_each R a b ks s1 of (rest, s2) \<Rightarrow> ((k, v) # rest, s2)))"

text \<open>\<open>str(n)\<close> for an integer: its decimal digits.\<close>

function str_nat :: "nat \<Rightarrow> string" where
  "str_nat n =
     (if n < 10 then [char_of (48 + n)]
      else str_nat (n div 10) @ [char_of (48 + n mod 10)])"
  by pat_completeness auto
termination
  by (relation "measure id") auto

declare str_nat.simps [simp del]

definition str_int :: "int \<Rightarrow> string" where
  "str_int i = (if i < 0 then ''-'' @ str_nat (nat (- i)) else str_nat (nat i))"

section \<open>The mock data generators (lines 30-91)\<close>

text \<open>
  An element of \<open>class_data\<close> (lines 50-64), one field per key. A dictionary from
  objective to score is the list of its items in insertion order; its keys are distinct.
\<close>

record student_record =
  student_name :: string
  objectives_mastered :: "(string \<times> real) list"
  writing_scores :: "real list"
  curiosity_paths :: "string list"
  ai_support_level :: real
  total_time_minutes :: int
  questions_asked :: int
  revisions_made :: int
  confusion_areas :: "string list"

definition students :: "string list" where
  "students =
     [''Jayla Williams'', ''Jackson Miller'', ''Olivia Chen'', ''Marcus Johnson'',
      ''Sophia Rodriguez'', ''Ethan Kim'', ''Isabella Brown'', ''Noah Davis'',
      ''Emma Wilson'', ''Liam Garcia'', ''Ava Martinez'', ''Lucas Anderson'']"

definition objectives :: "string list" where
  "objectives =
     [''Analyze primary sources'', ''Identify multiple perspectives'',
      ''Evaluate evidence quality'', ''Synthesize information'',
      ''Draw supported conclusions'']"

definition curiosity_catalog :: "string list" where
  "curiosity_catalog =
     [''Climate Change Connections'', ''Modern Parallels'', ''Economic Factors'',
      ''Cultural Impact'', ''Technology Influence'', ''Global Perspectives'',
      ''Environmental Effects'', ''Social Justice Angles'']"

text \<open>Lines 50-64: the record of one student, its draws in the order of the literal.\<close>

definition generate_student :: "'s random_module \<Rightarrow> string \<Rightarrow> (student_record, 's) drawing" where
  "generate_student R student =
     and_then (returns (uniform_each R 0.6 1.0 objectives)) (\<lambda>mastered.
     and_then (returns (uniform_each R 6 10 [0 ..< 6])) (\<lambda>scores.
     and_then (returns (randint R 1 4)) (\<lambda>n_paths.
     and_then (py_sample R curiosity_catalog n_paths) (\<lambda>paths.
     and_then (returns (uniform R 0.2 0.8)) (\<lambda>support.
     and_then (returns (randint R 45 120)) (\<lambda>minutes.
     and_then (returns (randint R 3 15)) (\<lambda>questions.
     and_then (returns (randint R 2 8)) (\<lambda>revisions.
     and_then (returns (randint R 0 2)) (\<lambda>n_confusion.
     and_then (py_sample R objectives n_confusion) (\<lambda>confusion.
     result
       \<lparr> student_name = student,
         objectives_mastered = mastered,
         writing_scores = map snd scores,
         curiosity_paths = paths,
         ai_support_level = support,
         total_time_minutes = minutes,
         questions_asked = questions,
         revisions_made = revisions,
         confusion_areas = confusion \<rparr>))))))))))"

text \<open>Lines 48-65: the loop over the students.\<close>

fun generate_students :: "'s random_module \<Rightarrow> string list \<Rightarrow> (student_record list, 's) drawing" where
  "generate_students R [] = result []"
| "generate_students R (student # rest) =
     and_then (generate_student R student) (\<lambda>student_data.
     and_then (generate_students R rest) (\<lambda>class_data.
     result (student_data # class_data)))"

text \<open>
  \<open>generate_class_data\<close>, the body that runs when the cache (\<open>st.cache_data\<close>) holds
  no value.
\<close>

definition generate_class_data :: "'s random_module \<Rightarrow> (student_record list \<times> string list, 's) drawing" where
  "generate_class_data R =
     and_then (generate_students R students) (\<lambda>class_data. result (class_data, objectives))"

text \<open>The dictionary returned by \<open>generate_individual_student_data\<close> (lines 75-91).\<close>

record individual_record =
  name :: string
  objectives_progress :: "(string \<times> real) list"
  writing_timeline :: "(string \<times> real) list"
  exploration_tags :: "string list"
  ai_breakdown :: "(string \<times> real) list"

definition exploration_catalog :: "string list" where
  "exploration_catalog =
     [''Economic parallels to 2008'', ''Environmental justice'', ''Global perspectives'',
      ''Technology impacts'', ''Social movements'', ''Cultural analysis'']"

text \<open>
  An entry of \<open>writing_timeline\<close> is the pair of its \<open>week\<close> label and its \<open>score\<close>.
\<close>

definition generate_individual_student_data ::
  "'s random_module \<Rightarrow> string \<Rightarrow> (individual_record, 's) drawing" where
  "generate_individual_student_data R student_name' =
     and_then (returns (uniform_each R 0.7 1.0 objectives)) (\<lambda>progress.
     and_then (returns (uniform_each R 6.5 9.5 [0 ..< 6])) (\<lambda>scores.
     and_then (returns (randint R 2 4)) (\<lambda>n_tags.
     and_then (py_sample R exploration_catalog n_tags) (\<lambda>tags.
     and_then (returns (uniform R 0.4 0.7)) (\<lambda>original.
     and_then (returns (uniform R 0.2 0.4)) (\<lambda>scaffolding.
     and_then (returns (uniform R 0.1 0.3)) (\<lambda>collaborative.
     result
       \<lparr> name = student_name',
         objectives_progress = progress,
         writing_timeline =
           map (\<lambda>(i, score). (''Week '' @ str_int (int i + 1), score)) scores,
         exploration_tags = tags,
         ai_breakdown =
           [(''student_original'', original), (''ai_scaffolding'', scaffolding),
            (''collaborative'', collaborative)] \<rparr>)))))))"

text \<open>The documented bounds of the two kinds of record.\<close>

definition fraction :: "real \<Rightarrow> bool" where
  "fraction x \<longleftrightarrow> 0 \<le> x \<and> x \<le> 1"

definition writing_score :: "real \<Rightarrow> bool" where
  "writing_score x \<longleftrightarrow> 6 \<le> x \<and> x \<le> 10"

definition student_within_bounds :: "student_record \<Rightarrow> bool" where
  "student_within_bounds r \<longleftrightarrow>
     list_all fraction (map snd (objectives_mastered r))
     \<and> fraction (ai_support_level r)
     \<and> length (writing_scores r) = 6
     \<and> list_all writing_score (writing_scores r)"

definition individual_within_bounds :: "individual_record \<Rightarrow> bool" where
  "individual_within_bounds r \<longleftrightarrow>
     list_all fraction (map snd (objectives_progress r))
     \<and> list_all fraction (map snd (ai_breakdown r))
     \<and> length (writing_timeline r) = 6
     \<and> list_all writing_score (map snd (writing_timeline r))"

text \<open>
  A random module to evaluate on: the generator state is a list of naturals, each draw
  consumes its head (0 when the list is exhausted).
\<close>

definition next_draw :: "nat list \<Rightarrow> nat" where
  "next_draw s = (case s of [] \<Rightarrow> 0 | n # _ \<Rightarrow> n)"

definition tape_random :: "nat list random_module" where
  "tape_random =
     \<lparr> uniform = (\<lambda>a b s. (a + (b - a) * (real (next_draw s mod 11) / 10), tl s)),
       randint = (\<lambda>a b s. (a + int (next_draw s) mod (b - a + 1), tl s)),
       sample = (\<lambda>population k s. (take (nat k) (rotate (next_draw s) population), tl s)),
       choice = (\<lambda>seq s. (seq ! (next_draw s mod length seq), tl s)) \<rparr>"


section \<open>The student report view (lines 353-436)\<close>














section \<open>The AI-support histogram of the class trends view (lines 475-490)\<close>

definition support_levels :: "student_record list \<Rightarrow> real list" where
  "support_levels class_data = map ai_support_level class_data"

definition support_bins :: "string list" where
  "support_bins = [''Low (20-40%)'', ''Medium (40-60%)'', ''High (60-80%)'']"

text \<open>Lines 479-483: each count is \<open>sum(1 for x in support_levels if ...)\<close>.\<close>

definition support_counts :: "real list \<Rightarrow> int list" where
  "support_counts levels =
     [ sum_list (map (\<lambda>x. 1) (filter (\<lambda>x. x < 0.4) levels)),
       sum_list (map (\<lambda>x. 1) (filter (\<lambda>x. 0.4 \<le> x \<and> x < 0.6) levels)),
       sum_list (map (\<lambda>x. 1) (filter (\<lambda>x. x \<ge> 0.6) levels)) ]"

definition ai_support_usage :: "student_record list \<Rightarrow> element list" where
  "ai_support_usage class_data =
     [ Subheader ''AI Re-teaching Usage'',
       Pie_chart (map of_int (support_counts (support_levels class_data))) support_bins
         ''Distribution of AI Support Usage'' ]"

text \<open>A roster to evaluate on: records that differ in their support level only.\<close>

definition student_with_support :: "real \<Rightarrow> student_record" where
  "student_with_support level =
     \<lparr> student_name = ''Jayla Williams'',
       objectives_mastered = [(''Analyze primary sources'', 0.8)],
       writing_scores = [7, 7, 8, 8, 9, 9],
       curiosity_paths = [''Modern Parallels''],
       ai_support_level = level,
       total_time_minutes = 60,
       questions_asked = 5,
       revisions_made = 3,
       confusion_areas = [] \<rparr>"

definition example_roster :: "student_record list" where
  "example_roster =
     [student_with_support 0.3, student_with_support 0.5, student_with_support 0.7]"


section \<open>Properties of the student experience view\<close>

lemma handle_step_state_cases:
  assumes "P s" and "P (advance s)" and "P (record_and_advance k (step_value w) s)"
  shows "P (state_after (handle_step w k step out s))"
  using assms
  by (simp add: handle_step_def state_after_def Let_def split: sum.splits)

lemma show_state_cases:
  assumes "clicked w \<noteq> Some Reset_Conversation"
    and "P s" and "P (advance s)"
    and "P (record_and_advance (student_dialogue_step s) (step_value w) s)"
  shows "P (state_after (show_student_experience w s))"
proof -
  have "P (state_after (handle_step w (student_dialogue_step s) step out s))" for step out
    using assms(2-4) by (rule handle_step_state_cases)
  then show ?thesis
    using assms(1,2)
    by (simp add: show_student_experience_def Let_def split: sum.splits)
      (simp add: state_after_def)
qed

lemma run_reset:
  "clicked w = Some Reset_Conversation \<Longrightarrow>
   state_after (show_student_experience w s) = reset_conversation s"
  by (simp add: show_student_experience_def Let_def state_after_def reset_conversation_def
       dialogue_steps_def list_getitem_def handle_step_def getitem_def)

lemma run_at_0:
  "student_dialogue_step s = 0 \<Longrightarrow> clicked w \<noteq> Some Reset_Conversation \<Longrightarrow>
   state_after (show_student_experience w s) =
     (if clicked w = Some Next_Step then record_and_advance 0 (step_value w) s else s)"
  by (simp add: show_student_experience_def Let_def state_after_def
       dialogue_steps_def list_getitem_def handle_step_def getitem_def)

lemma run_at_1:
  "student_dialogue_step s = 1 \<Longrightarrow> clicked w \<noteq> Some Reset_Conversation \<Longrightarrow>
   state_after (show_student_experience w s) =
     (if clicked w = Some Next_Step then advance s else s)"
  by (simp add: show_student_experience_def Let_def state_after_def
       dialogue_steps_def list_getitem_def handle_step_def getitem_def)

lemma run_at_2:
  "student_dialogue_step s = 2 \<Longrightarrow> clicked w \<noteq> Some Reset_Conversation \<Longrightarrow>
   show_student_experience w s =
     (view_heading (selected_student w) @ [Chat_message ''assistant'' []],
      Raised (KeyError ''content''), s)"
  by (simp add: show_student_experience_def Let_def
       dialogue_steps_def list_getitem_def handle_step_def getitem_def)

lemma run_at_2_state:
  "student_dialogue_step s = 2 \<Longrightarrow> clicked w \<noteq> Some Reset_Conversation \<Longrightarrow>
   state_after (show_student_experience w s) = s"
  by (simp add: run_at_2 state_after_def)

lemma run_at_3:
  "student_dialogue_step s = 3 \<Longrightarrow> clicked w \<noteq> Some Reset_Conversation \<Longrightarrow>
   state_after (show_student_experience w s) =
     (if clicked w = Some Next_Step then record_and_advance 3 (step_value w) s else s)"
  by (simp add: show_student_experience_def Let_def state_after_def
       dialogue_steps_def list_getitem_def handle_step_def getitem_def)

lemma run_at_4:
  "student_dialogue_step s = 4 \<Longrightarrow> clicked w = Some Next_Step \<Longrightarrow>
   show_student_experience w s =
     (view_heading (selected_student w)
        @ [assistant_message (Str ''You've made some great connections! Now I want you to step back and reflect on your learning process.'') None,
           reflection_heading,
           Text_area ''What surprised you most?'',
           Text_area ''What questions do you still have?'',
           Text_area ''How does this connect to something you already knew?'',
           reflection_button, reflection_success, report_block (selected_student w)],
      Finished, s)"
  by (simp add: show_student_experience_def Let_def
       dialogue_steps_def list_getitem_def handle_step_def getitem_def prompt_areas_def)

lemma run_at_4_state:
  "student_dialogue_step s = 4 \<Longrightarrow> clicked w \<noteq> Some Reset_Conversation \<Longrightarrow>
   state_after (show_student_experience w s) = s"
  by (simp add: show_student_experience_def Let_def state_after_def
       dialogue_steps_def list_getitem_def handle_step_def getitem_def prompt_areas_def)

lemma run_done:
  "5 \<le> student_dialogue_step s \<Longrightarrow> clicked w \<noteq> Some Reset_Conversation \<Longrightarrow>
   show_student_experience w s =
     (view_heading (selected_student w) @ [completion_message], Finished, s)"
  by (simp add: show_student_experience_def Let_def dialogue_steps_def)

lemma length_dialogue_steps: "length (dialogue_steps sel) = 5"
  by (simp add: dialogue_steps_def)

lemma run_done_state:
  "5 \<le> student_dialogue_step s \<Longrightarrow> clicked w \<noteq> Some Reset_Conversation \<Longrightarrow>
   state_after (show_student_experience w s) = s"
  by (simp add: run_done state_after_def)

lemma step_cases:
  assumes "0 \<le> (k::int)"
  obtains "k = 0" | "k = 1" | "k = 2" | "k = 3" | "k = 4" | "5 \<le> k"
  using assms by linarith

lemma handle_step_no_completion:
  "completion_message \<notin> set out \<Longrightarrow>
   completion_message \<notin> set (rendered (handle_step w k step out s))"
  by (simp add: handle_step_def rendered_def Let_def completion_message_def
      assistant_message_def ai_intro_widgets_def content_delivery_widgets_def
      comprehension_check_widgets_def deeper_exploration_widgets_def
      deeper_exploration_reply_def reflection_heading_def reflection_button_def
      reflection_success_def report_block_def success_acknowledgment_def
      corrective_hint_def prompt_areas_def image_iff
      split: sum.splits py_value.splits)

lemma completion_rendered_iff:
  assumes "clicked w \<noteq> Some Reset_Conversation"
  shows "completion_message \<in> set (rendered (show_student_experience w s))
         \<longleftrightarrow> 5 \<le> student_dialogue_step s"
proof (cases "5 \<le> student_dialogue_step s")
  case True
  then show ?thesis using assms by (simp add: run_done rendered_def)
next
  case False
  have h: "completion_message \<notin> set (view_heading (selected_student w))"
    by (simp add: view_heading_def completion_message_def)
  have "completion_message \<notin> set (rendered (handle_step w k step (view_heading (selected_student w)) s))"
    for k step
    using h by (rule handle_step_no_completion)
  then have "completion_message \<notin> set (rendered (show_student_experience w s))"
    using h assms False
    by (simp add: show_student_experience_def Let_def length_dialogue_steps rendered_def
          split: sum.splits)
  then show ?thesis using False by simp
qed

lemma cursor_step_monotone:
  assumes "clicked w \<noteq> Some Reset_Conversation"
  shows "student_dialogue_step s
           \<le> student_dialogue_step (state_after (show_student_experience w s))"
  using assms
  by (rule show_state_cases) (simp_all add: advance_def record_and_advance_def)

lemma run_session_append:
  "run_session (ws @ [w]) s = state_after (show_student_experience w (run_session ws s))"
  by (induction ws arbitrary: s) simp_all

lemma run_session_monotone:
  "\<forall>w \<in> set ws. clicked w \<noteq> Some Reset_Conversation \<Longrightarrow>
   student_dialogue_step s \<le> student_dialogue_step (run_session ws s)"
proof (induction ws arbitrary: s)
  case Nil
  then show ?case by simp
next
  case (Cons w ws)
  have "student_dialogue_step s
          \<le> student_dialogue_step (state_after (show_student_experience w s))"
    using Cons.prems by (simp add: cursor_step_monotone)
  also have "\<dots> \<le> student_dialogue_step
                      (run_session ws (state_after (show_student_experience w s)))"
    using Cons.prems by (intro Cons.IH) simp
  finally show ?case by simp
qed

text \<open>
  Claim C3. In every run of the view the dialogue cursor does not decrease unless the
  reset button is the one pressed; a run in which the reset button is pressed leaves the
  cursor at 0 and the response map empty; and over any sequence of runs without a reset
  the cursor at the end is at least the cursor at the start.
\<close>

theorem cursor_monotone_except_reset:
  "(clicked w \<noteq> Some Reset_Conversation \<longrightarrow>
      student_dialogue_step s
        \<le> student_dialogue_step (state_after (show_student_experience w s)))
   \<and> (clicked w = Some Reset_Conversation \<longrightarrow>
      student_dialogue_step (state_after (show_student_experience w s)) = 0
      \<and> student_responses (state_after (show_student_experience w s)) = Map.empty)
   \<and> ((\<forall>v \<in> set ws. clicked v \<noteq> Some Reset_Conversation) \<longrightarrow>
      student_dialogue_step s \<le> student_dialogue_step (run_session ws s))"
  using cursor_step_monotone [of w s] run_session_monotone [of ws s]
  by (simp add: run_reset reset_conversation_def)

theorem cursor_monotone_except_reset_witness:
  "clicked w_next \<noteq> Some Reset_Conversation
   \<and> student_dialogue_step initial_session_state
        \<le> student_dialogue_step (state_after (show_student_experience w_next initial_session_state))
   \<and> student_dialogue_step (state_after (show_student_experience w_next initial_session_state)) = 1
   \<and> clicked w_reset = Some Reset_Conversation
   \<and> student_dialogue_step (state_after (show_student_experience w_reset
         (state_after (show_student_experience w_next initial_session_state)))) = 0
   \<and> student_responses (state_after (show_student_experience w_reset
         (state_after (show_student_experience w_next initial_session_state)))) = Map.empty
   \<and> student_dialogue_step initial_session_state
        \<le> student_dialogue_step (run_session [w_next, w_next] initial_session_state)"
  using cursor_monotone_except_reset [of w_next initial_session_state "[w_next, w_next]"]
    cursor_monotone_except_reset [of w_reset
      "state_after (show_student_experience w_next initial_session_state)" "[]"]
  by (simp add: w_next_def w_reset_def run_at_0 initial_session_state_def record_and_advance_def)

lemma cursor_in_range_iff:
  "cursor_in_range s \<longleftrightarrow> 0 \<le> student_dialogue_step s \<and> student_dialogue_step s \<le> 5"
  by (simp add: cursor_in_range_def length_dialogue_steps)

lemma cursor_in_range_step:
  assumes "cursor_in_range s"
  shows "cursor_in_range (state_after (show_student_experience w s))"
proof (cases "clicked w = Some Reset_Conversation")
  case True
  then show ?thesis by (simp add: run_reset reset_conversation_def cursor_in_range_iff)
next
  case False
  from assms have "0 \<le> student_dialogue_step s" by (simp add: cursor_in_range_iff)
  then show ?thesis
    using assms False
    by (cases rule: step_cases)
      (simp_all add: run_at_0 run_at_1 run_at_2_state run_at_3 run_at_4_state run_done_state
         cursor_in_range_iff record_and_advance_def advance_def)
qed

lemma cursor_in_range_session:
  "cursor_in_range s \<Longrightarrow> cursor_in_range (run_session ws s)"
  by (induction ws arbitrary: s) (simp_all add: cursor_in_range_step)

text \<open>
  Claim C4. Every session state reached from the initial state by runs of the view
  (dialogue actions and resets) has its cursor between 0 and the length of the catalog,
  which is 5; the range is kept by every run; and on a state in that range the completion
  message is rendered exactly when the cursor equals the length of the catalog, a state
  that no action but the reset leaves.
\<close>

theorem cursor_within_catalog:
  "cursor_in_range (run_session ws initial_session_state)
   \<and> length (dialogue_steps sel) = 5
   \<and> (cursor_in_range s \<longrightarrow> cursor_in_range (state_after (show_student_experience w s)))
   \<and> (cursor_in_range s \<and> clicked w \<noteq> Some Reset_Conversation \<longrightarrow>
        (completion_message \<in> set (rendered (show_student_experience w s))
           \<longleftrightarrow> student_dialogue_step s = int (length (dialogue_steps sel))))
   \<and> (student_dialogue_step s = int (length (dialogue_steps sel))
          \<and> clicked w \<noteq> Some Reset_Conversation \<longrightarrow>
        state_after (show_student_experience w s) = s)"
proof -
  have "cursor_in_range initial_session_state"
    by (simp add: cursor_in_range_iff initial_session_state_def)
  then have "cursor_in_range (run_session ws initial_session_state)"
    by (rule cursor_in_range_session)
  moreover have "cursor_in_range s \<and> clicked w \<noteq> Some Reset_Conversation \<longrightarrow>
        (completion_message \<in> set (rendered (show_student_experience w s))
           \<longleftrightarrow> student_dialogue_step s = 5)"
    by (auto simp add: completion_rendered_iff cursor_in_range_iff)
  ultimately show ?thesis
    by (simp add: length_dialogue_steps cursor_in_range_step run_done_state)
qed

theorem cursor_within_catalog_witness:
  "cursor_in_range s_done \<and> clicked w_idle \<noteq> Some Reset_Conversation
   \<and> student_dialogue_step s_done = int (length (dialogue_steps ''Olivia Chen''))
   \<and> cursor_in_range (state_after (show_student_experience w_idle s_done))
   \<and> completion_message \<in> set (rendered (show_student_experience w_idle s_done))
   \<and> state_after (show_student_experience w_idle s_done) = s_done
   \<and> cursor_in_range (run_session [w_idle] initial_session_state)"
  using cursor_within_catalog [of "[w_idle]" "''Olivia Chen''" s_done w_idle]
  by (simp add: cursor_in_range_iff s_done_def w_idle_def)

lemma responses_in_recorded_steps_step:
  assumes "responses_in_recorded_steps s"
  shows "responses_in_recorded_steps (state_after (show_student_experience w s))"
proof (cases "clicked w = Some Reset_Conversation")
  case True
  then show ?thesis
    by (simp add: run_reset reset_conversation_def responses_in_recorded_steps_def)
next
  case False
  from assms have "0 \<le> student_dialogue_step s"
    by (simp add: responses_in_recorded_steps_def)
  then show ?thesis
    using assms False
    by (cases rule: step_cases)
      (auto simp add: run_at_0 run_at_1 run_at_2_state run_at_3 run_at_4_state run_done_state
         responses_in_recorded_steps_def record_and_advance_def advance_def)
qed

lemma responses_in_recorded_steps_session:
  "responses_in_recorded_steps s \<Longrightarrow> responses_in_recorded_steps (run_session ws s)"
  by (induction ws arbitrary: s) (simp_all add: responses_in_recorded_steps_step)

text \<open>
  Claim C10. In every session state reached from the initial state by runs of the view
  the keys of the response map are among 0, 2 and 3; a run at step 1
  (\<open>content_delivery\<close>) or step 4 (\<open>reflection\<close>) does not write to the map.
\<close>

theorem response_keys_subset:
  "dom (student_responses (run_session ws initial_session_state)) \<subseteq> {0, 2, 3}
   \<and> (clicked w \<noteq> Some Reset_Conversation
        \<and> (student_dialogue_step s = 1 \<or> student_dialogue_step s = 4) \<longrightarrow>
      student_responses (state_after (show_student_experience w s)) = student_responses s)"
proof -
  have "responses_in_recorded_steps initial_session_state"
    by (simp add: responses_in_recorded_steps_def initial_session_state_def)
  then have "responses_in_recorded_steps (run_session ws initial_session_state)"
    by (rule responses_in_recorded_steps_session)
  then show ?thesis
    by (auto simp add: responses_in_recorded_steps_def run_at_1 run_at_4_state advance_def)
qed

theorem response_keys_subset_witness:
  "clicked w_next \<noteq> Some Reset_Conversation \<and> student_dialogue_step s_delivery = 1
   \<and> student_responses (state_after (show_student_experience w_next s_delivery))
       = student_responses s_delivery
   \<and> run_session [w_next] initial_session_state = s_delivery
   \<and> dom (student_responses (run_session [w_next] initial_session_state)) \<subseteq> {0, 2, 3}"
  using response_keys_subset [of "[w_next]" w_next s_delivery]
  by (simp add: w_next_def s_delivery_def run_at_0 initial_session_state_def
       record_and_advance_def)







lemma str_contains_iff_sublist: "str_contains needle hay \<longleftrightarrow> sublist needle hay"
  by (induction hay) (auto simp add: sublist_Cons_right)

lemma fragile_option_contains:
  "str_contains ''fragile and interconnected''
     ''The economic system was fragile and interconnected''"
  by code_simp

lemma banks_option_not_contains:
  "\<not> str_contains ''fragile and interconnected'' ''Banks were like card games''"
  by code_simp

text \<open>
  Claim C5, evaluated on the code. The state with cursor 2 is reached from the initial
  state by two presses of the step button. There, with the option
  "The economic system was fragile and interconnected" chosen and "Submit Answer"
  pressed, line 276 reads \<open>step['content']\<close>, a key the \<open>comprehension_check\<close>
  entry of the catalog does not have: the run raises \<open>KeyError\<close> before the branch
  of lines 294-306, no acknowledgment is rendered, nothing is recorded under key 2 and
  the cursor stays 2.
\<close>

theorem comprehension_check_raises:
  "run_session [w_next, w_next] initial_session_state = s_check
   \<and> str_contains ''fragile and interconnected'' (step_value w_answer)
   \<and> outcome_of (show_student_experience w_answer s_check) = Raised (KeyError ''content'')
   \<and> success_acknowledgment \<notin> set (rendered (show_student_experience w_answer s_check))
   \<and> state_after (show_student_experience w_answer s_check) = s_check
   \<and> student_responses (state_after (show_student_experience w_answer s_check)) 2 = None
   \<and> student_dialogue_step (state_after (show_student_experience w_answer s_check)) = 2"
proof -
  have "run_session [w_next, w_next] initial_session_state = s_check"
    by (simp add: run_at_0 run_at_1 w_next_def initial_session_state_def s_check_def
          record_and_advance_def advance_def)
  moreover have "str_contains ''fragile and interconnected'' (step_value w_answer)"
    using fragile_option_contains by (simp add: w_answer_def)
  moreover have "show_student_experience w_answer s_check =
     (view_heading ''Jayla Williams'' @ [Chat_message ''assistant'' []],
      Raised (KeyError ''content''), s_check)"
    by (simp add: run_at_2 s_check_def w_answer_def)
  ultimately show ?thesis
    by (simp add: outcome_of_def rendered_def state_after_def view_heading_def
          success_acknowledgment_def)
      (simp add: s_check_def)
qed

section \<open>Properties of the assignment setup view\<close>

lemma strip_empty_iff: "strip s = [] \<longleftrightarrow> (\<forall>c \<in> set s. isspace c)"
proof -
  have "strip s = [] \<longleftrightarrow> (\<forall>c \<in> set (dropWhile isspace s). isspace c)"
    by (simp add: strip_def)
  also have "\<dots> \<longleftrightarrow> (\<forall>c \<in> set s. isspace c)"
  proof
    assume all: "\<forall>c \<in> set (dropWhile isspace s). isspace c"
    have "dropWhile isspace s = []"
    proof (rule ccontr)
      assume ne: "dropWhile isspace s \<noteq> []"
      then have "\<not> isspace (hd (dropWhile isspace s))" by (rule hd_dropWhile)
      moreover have "hd (dropWhile isspace s) \<in> set (dropWhile isspace s)"
        using ne by simp
      ultimately show False using all by blast
    qed
    then show "\<forall>c \<in> set s. isspace c" by simp
  next
    assume "\<forall>c \<in> set s. isspace c"
    then show "\<forall>c \<in> set (dropWhile isspace s). isspace c"
      by (blast dest: set_dropWhileD)
  qed
  finally show ?thesis .
qed

lemma split_from_pieces:
  "p \<in> set (split_from sep cur s) \<Longrightarrow> set p \<subseteq> set cur \<union> set s"
proof (induction sep cur s rule: split_from.induct)
  case (1 sep cur)
  then show ?case by simp
next
  case (2 sep cur c cs)
  show ?case
  proof (cases "sep \<noteq> [] \<and> prefix sep (c # cs)")
    case True
    with "2.prems" have "p = rev cur \<or> p \<in> set (split_from sep [] (drop (length sep) (c # cs)))"
      by simp
    then show ?thesis
    proof
      assume "p = rev cur" then show ?thesis by auto
    next
      assume "p \<in> set (split_from sep [] (drop (length sep) (c # cs)))"
      with "2.IH"(1) True have "set p \<subseteq> set (drop (length sep) (c # cs))" by simp
      also have "\<dots> \<subseteq> set (c # cs)" by (rule set_drop_subset)
      finally show ?thesis by auto
    qed
  next
    case False
    with "2.prems" have "p \<in> set (split_from sep (c # cur) cs)" by auto
    with "2.IH"(2) False have "set p \<subseteq> set (c # cur) \<union> set cs" by blast
    then show ?thesis by auto
  qed
qed

lemma split_pieces: "p \<in> set (split s sep) \<Longrightarrow> set p \<subseteq> set s"
  using split_from_pieces [of p sep "[]" s] by (simp add: split_def)

lemma split_from_not_empty: "split_from sep cur s \<noteq> []"
  by (induction sep cur s rule: split_from.induct) auto

lemma blank_text_has_blank_lines:
  assumes "strip custom = []"
  shows "filter (\<lambda>obj. strip obj \<noteq> []) (split custom sep) = []"
proof -
  have "strip p = []" if "p \<in> set (split custom sep)" for p
    using split_pieces [OF that] assms by (auto simp add: strip_empty_iff)
  then show ?thesis by (simp add: filter_empty_conv)
qed

lemma all_objectives_eq_spec:
  "all_objectives preset custom = spec_objective_list preset custom"
proof (cases "strip custom = []")
  case True
  then show ?thesis
    using blank_text_has_blank_lines [OF True, of "''\<newline>''"]
    by (simp add: all_objectives_def spec_objective_list_def filter_map comp_def)
next
  case False
  then show ?thesis
    by (simp add: all_objectives_def spec_objective_list_def filter_map comp_def)
qed

lemma split_not_empty: "split s sep \<noteq> []"
  by (simp add: split_def split_from_not_empty)

lemma submitted_data:
  "submitted f \<Longrightarrow>
   assignment_data (state_after (show_assignment_setup f s)) = Some (build_assignment_data f)"
  by (simp add: show_assignment_setup_def state_after_def Let_def)

text \<open>
  Claim C7. On submission the stored objective list is the selected preset objectives
  followed by the lines of the custom text, split on newline, each trimmed and the blank
  ones dropped; for the custom text "A", blank line, "B", newline the list is the preset
  objectives followed by "A" and "B".
\<close>

theorem objectives_on_submission:
  assumes "submitted f"
  shows "map_option data_objectives (assignment_data (state_after (show_assignment_setup f s)))
           = Some (spec_objective_list (preset_objectives f) (custom_objectives f))
         \<and> (custom_objectives f = ''A\<newline>\<newline>B\<newline>'' \<longrightarrow>
              map_option data_objectives (assignment_data (state_after (show_assignment_setup f s)))
                = Some (preset_objectives f @ [''A'', ''B'']))"
proof -
  have "spec_objective_list preset ''A\<newline>\<newline>B\<newline>'' = preset @ [''A'', ''B'']" for preset
    by (simp add: spec_objective_list_def split_def strip_def isspace_def)
  then show ?thesis
    using assms
    by (auto simp add: submitted_data build_assignment_data_def all_objectives_eq_spec)
qed

theorem objectives_on_submission_witness:
  "submitted example_form
   \<and> custom_objectives example_form = ''A\<newline>\<newline>B\<newline>''
   \<and> map_option data_objectives
        (assignment_data (state_after (show_assignment_setup example_form initial_session_state)))
       = Some [''Analyze primary sources'', ''Compare multiple perspectives'', ''A'', ''B'']"
  using objectives_on_submission [of example_form initial_session_state]
  by (simp add: example_form_def)

text \<open>
  Claim C8. On submission the required and the optional resource lists are the empty
  list for the empty text and the two lines "x", "y" for the text "x", newline, "y".
\<close>

theorem resource_lists_on_submission:
  assumes "submitted f"
  shows "(required_resources f = [] \<longrightarrow>
            map_option data_required_resources
              (assignment_data (state_after (show_assignment_setup f s))) = Some [])
         \<and> (required_resources f = ''x\<newline>y'' \<longrightarrow>
            map_option data_required_resources
              (assignment_data (state_after (show_assignment_setup f s))) = Some [''x'', ''y''])
         \<and> (optional_resources f = [] \<longrightarrow>
            map_option data_optional_resources
              (assignment_data (state_after (show_assignment_setup f s))) = Some [])
         \<and> (optional_resources f = ''x\<newline>y'' \<longrightarrow>
            map_option data_optional_resources
              (assignment_data (state_after (show_assignment_setup f s))) = Some [''x'', ''y''])"
proof -
  have "resource_list [] = []" and "resource_list ''x\<newline>y'' = [''x'', ''y'']"
    by (simp_all add: resource_list_def split_def)
  then show ?thesis
    using assms by (simp add: submitted_data build_assignment_data_def)
qed

theorem resource_lists_on_submission_witness:
  "submitted example_form \<and> required_resources example_form = ''x\<newline>y''
   \<and> optional_resources example_form = []
   \<and> map_option data_required_resources
        (assignment_data (state_after (show_assignment_setup example_form initial_session_state)))
       = Some [''x'', ''y'']
   \<and> map_option data_optional_resources
        (assignment_data (state_after (show_assignment_setup example_form initial_session_state)))
       = Some []
   \<and> submitted swapped_form \<and> required_resources swapped_form = []
   \<and> optional_resources swapped_form = ''x\<newline>y''
   \<and> map_option data_required_resources
        (assignment_data (state_after (show_assignment_setup swapped_form initial_session_state)))
       = Some []
   \<and> map_option data_optional_resources
        (assignment_data (state_after (show_assignment_setup swapped_form initial_session_state)))
       = Some [''x'', ''y'']"
  using resource_lists_on_submission [of example_form initial_session_state]
    resource_lists_on_submission [of swapped_form initial_session_state]
  by (simp add: example_form_def swapped_form_def)

section \<open>Properties of the mock data generators\<close>

lemma uniform_each_keys: "map fst (fst (uniform_each R a b ks s)) = ks"
proof (induction ks arbitrary: s)
  case Nil
  then show ?case by simp
next
  case (Cons k ks)
  obtain v s1 where u: "uniform R a b s = (v, s1)" by (cases "uniform R a b s")
  obtain rest s2 where r: "uniform_each R a b ks s1 = (rest, s2)"
    by (cases "uniform_each R a b ks s1")
  have "map fst rest = ks" using Cons.IH [of s1] r by simp
  then show ?case using u r by simp
qed

lemma uniform_each_length: "length (fst (uniform_each R a b ks s)) = length ks"
  using uniform_each_keys [of R a b ks s] by (metis length_map)

lemma uniform_each_bounds:
  assumes "random_contract R" and "a \<le> b"
  shows "list_all (\<lambda>v. a \<le> v \<and> v \<le> b) (map snd (fst (uniform_each R a b ks s)))"
proof (induction ks arbitrary: s)
  case Nil
  then show ?case by simp
next
  case (Cons k ks)
  obtain v s1 where u: "uniform R a b s = (v, s1)" by (cases "uniform R a b s")
  obtain rest s2 where r: "uniform_each R a b ks s1 = (rest, s2)"
    by (cases "uniform_each R a b ks s1")
  have "a \<le> v \<and> v \<le> b"
    using assms u unfolding random_contract_def by (metis fst_conv)
  moreover have "list_all (\<lambda>v. a \<le> v \<and> v \<le> b) (map snd rest)"
    using Cons.IH [of s1] r by simp
  ultimately show ?case using u r by simp
qed

lemma list_all_weaken:
  "list_all P xs \<Longrightarrow> (\<And>x. P x \<Longrightarrow> Q x) \<Longrightarrow> list_all Q xs"
  by (induction xs) auto

lemma randint_bounds:
  assumes "random_contract R" and "a \<le> b" and "randint R a b s = (k, s')"
  shows "a \<le> k \<and> k \<le> b"
  using assms unfolding random_contract_def by (metis fst_conv)

lemma uniform_bounds:
  assumes "random_contract R" and "a \<le> b" and "uniform R a b s = (v, s')"
  shows "a \<le> v \<and> v \<le> b"
  using assms unfolding random_contract_def by (metis fst_conv)

lemma generate_student_ok:
  assumes c: "random_contract R"
  shows "\<exists>r s'. generate_student R student s = (Inr r, s') \<and> student_within_bounds r"
proof -
  obtain mastered s1 where m: "uniform_each R 0.6 1.0 objectives s = (mastered, s1)"
    by (cases "uniform_each R 0.6 1.0 objectives s")
  obtain scores s2 where sc: "uniform_each R 6 10 [0 ..< 6] s1 = (scores, s2)"
    by (cases "uniform_each R 6 10 [0 ..< 6] s1")
  obtain n_paths s3 where np: "randint R 1 4 s2 = (n_paths, s3)"
    by (cases "randint R 1 4 s2")
  obtain paths s4 where p: "sample R curiosity_catalog n_paths s3 = (paths, s4)"
    by (cases "sample R curiosity_catalog n_paths s3")
  obtain support s5 where su: "uniform R 0.2 0.8 s4 = (support, s5)"
    by (cases "uniform R 0.2 0.8 s4")
  obtain minutes s6 where mi: "randint R 45 120 s5 = (minutes, s6)"
    by (cases "randint R 45 120 s5")
  obtain questions s7 where q: "randint R 3 15 s6 = (questions, s7)"
    by (cases "randint R 3 15 s6")
  obtain revisions s8 where rv: "randint R 2 8 s7 = (revisions, s8)"
    by (cases "randint R 2 8 s7")
  obtain n_confusion s9 where nc: "randint R 0 2 s8 = (n_confusion, s9)"
    by (cases "randint R 0 2 s8")
  obtain confusion s10 where cf: "sample R objectives n_confusion s9 = (confusion, s10)"
    by (cases "sample R objectives n_confusion s9")
  have np': "1 \<le> n_paths \<and> n_paths \<le> 4" using randint_bounds [OF c _ np] by simp
  have nc': "0 \<le> n_confusion \<and> n_confusion \<le> 2" using randint_bounds [OF c _ nc] by simp
  have su': "0.2 \<le> support \<and> support \<le> 0.8" using uniform_bounds [OF c _ su] by simp
  have m': "list_all (\<lambda>v. 0.6 \<le> v \<and> v \<le> 1.0) (map snd mastered)"
    using uniform_each_bounds [OF c, of "0.6" "1.0" objectives s] m by simp
  have sc': "list_all (\<lambda>v. 6 \<le> v \<and> v \<le> 10) (map snd scores)"
    using uniform_each_bounds [OF c, of 6 10 "[0 ..< 6]" s1] sc by simp
  have scl: "length scores = 6"
    using uniform_each_length [of R 6 10 "[0 ..< 6]" s1] sc by simp
  let ?r = "\<lparr> student_name = student, objectives_mastered = mastered,
         writing_scores = map snd scores, curiosity_paths = paths,
         ai_support_level = support, total_time_minutes = minutes,
         questions_asked = questions, revisions_made = revisions,
         confusion_areas = confusion \<rparr>"
  have "generate_student R student s = (Inr ?r, s10)"
    using m sc np p su mi q rv nc cf np' nc'
    by (simp add: generate_student_def and_then_def returns_def result_def py_sample_def
          curiosity_catalog_def objectives_def)
  moreover have "student_within_bounds ?r"
    using list_all_weaken [OF m', of fraction] list_all_weaken [OF sc', of writing_score]
      su' scl
    by (simp add: student_within_bounds_def fraction_def writing_score_def)
  ultimately show ?thesis by blast
qed

lemma generate_students_ok:
  assumes c: "random_contract R"
  shows "\<exists>class_data s'. generate_students R names s = (Inr class_data, s')
           \<and> length class_data = length names
           \<and> list_all student_within_bounds class_data"
proof (induction names arbitrary: s)
  case Nil
  then show ?case by (simp add: result_def)
next
  case (Cons n names)
  obtain r s1 where r: "generate_student R n s = (Inr r, s1)" "student_within_bounds r"
    using generate_student_ok [OF c, of n s] by blast
  obtain cd s2 where cd: "generate_students R names s1 = (Inr cd, s2)"
      "length cd = length names" "list_all student_within_bounds cd"
    using Cons.IH [of s1] by blast
  have "generate_students R (n # names) s = (Inr (r # cd), s2)"
    using r cd by (simp add: and_then_def result_def)
  then show ?case using r cd by simp
qed

lemma generate_individual_ok:
  assumes c: "random_contract R"
  shows "\<exists>r s'. generate_individual_student_data R n s = (Inr r, s')
           \<and> individual_within_bounds r"
proof -
  obtain progress s1 where m: "uniform_each R 0.7 1.0 objectives s = (progress, s1)"
    by (cases "uniform_each R 0.7 1.0 objectives s")
  obtain scores s2 where sc: "uniform_each R 6.5 9.5 [0 ..< 6] s1 = (scores, s2)"
    by (cases "uniform_each R 6.5 9.5 [0 ..< 6] s1")
  obtain n_tags s3 where nt: "randint R 2 4 s2 = (n_tags, s3)"
    by (cases "randint R 2 4 s2")
  obtain tags s4 where t: "sample R exploration_catalog n_tags s3 = (tags, s4)"
    by (cases "sample R exploration_catalog n_tags s3")
  obtain original s5 where o: "uniform R 0.4 0.7 s4 = (original, s5)"
    by (cases "uniform R 0.4 0.7 s4")
  obtain scaffolding s6 where sf: "uniform R 0.2 0.4 s5 = (scaffolding, s6)"
    by (cases "uniform R 0.2 0.4 s5")
  obtain collaborative s7 where co: "uniform R 0.1 0.3 s6 = (collaborative, s7)"
    by (cases "uniform R 0.1 0.3 s6")
  have nt': "2 \<le> n_tags \<and> n_tags \<le> 4" using randint_bounds [OF c _ nt] by simp
  have o': "0.4 \<le> original \<and> original \<le> 0.7" using uniform_bounds [OF c _ o] by simp
  have sf': "0.2 \<le> scaffolding \<and> scaffolding \<le> 0.4" using uniform_bounds [OF c _ sf] by simp
  have co': "0.1 \<le> collaborative \<and> collaborative \<le> 0.3"
    using uniform_bounds [OF c _ co] by simp
  have m': "list_all (\<lambda>v. 0.7 \<le> v \<and> v \<le> 1.0) (map snd progress)"
    using uniform_each_bounds [OF c, of "0.7" "1.0" objectives s] m by simp
  have sc': "list_all (\<lambda>v. 6.5 \<le> v \<and> v \<le> 9.5) (map snd scores)"
    using uniform_each_bounds [OF c, of "6.5" "9.5" "[0 ..< 6]" s1] sc by simp
  have scl: "length scores = 6"
    using uniform_each_length [of R "6.5" "9.5" "[0 ..< 6]" s1] sc by simp
  let ?r = "\<lparr> name = n, objectives_progress = progress,
         writing_timeline =
           map (\<lambda>(i, score). (''Week '' @ str_int (int i + 1), score)) scores,
         exploration_tags = tags,
         ai_breakdown =
           [(''student_original'', original), (''ai_scaffolding'', scaffolding),
            (''collaborative'', collaborative)] \<rparr>"
  have "generate_individual_student_data R n s = (Inr ?r, s7)"
    using m sc nt t o sf co nt'
    by (simp add: generate_individual_student_data_def and_then_def returns_def result_def
          py_sample_def exploration_catalog_def)
  moreover have "individual_within_bounds ?r"
    using list_all_weaken [OF m', of fraction] list_all_weaken [OF sc', of writing_score]
      o' sf' co' scl
    by (simp add: individual_within_bounds_def fraction_def writing_score_def
          comp_def case_prod_unfold)
  ultimately show ?thesis by blast
qed

lemma tape_random_contract: "random_contract tape_random"
proof -
  have u: "a \<le> a + (b - a) * (real (n mod 11) / 10) \<and> a + (b - a) * (real (n mod 11) / 10) \<le> b"
    if "a \<le> b" for a b :: real and n :: nat
  proof -
    have "real (n mod 11) \<le> 10"
    proof -
      have "n mod 11 < 11" by simp
      then show ?thesis by linarith
    qed
    then have t: "0 \<le> real (n mod 11) / 10" "real (n mod 11) / 10 \<le> 1" by simp_all
    have "0 \<le> (b - a) * (real (n mod 11) / 10)" using that t by simp
    moreover have "(b - a) * (real (n mod 11) / 10) \<le> (b - a) * 1"
      using that t by (intro mult_left_mono) simp_all
    ultimately show ?thesis by simp
  qed
  have i: "a \<le> a + k mod (b - a + 1) \<and> a + k mod (b - a + 1) \<le> b"
    if "a \<le> b" for a b k :: int
  proof -
    have "0 < b - a + 1" using that by simp
    then show ?thesis
      using pos_mod_sign [of "b - a + 1" k] pos_mod_bound [of "b - a + 1" k] by linarith
  qed
  show ?thesis
    using u i by (simp add: random_contract_def tape_random_def)
qed

text \<open>
  Claim C6. Whatever the random module draws within its contract, both generators
  return, and every record they return is within its documented bounds: the class
  generator returns twelve records whose mastery fractions and AI-support fraction lie
  in [0, 1] and whose six writing scores lie in [6, 10]; the individual generator returns
  a record whose mastery fractions and AI-breakdown fractions lie in [0, 1] and whose six
  weekly scores lie in [6, 10].
\<close>

theorem generated_records_within_bounds:
  assumes "random_contract R"
  shows "(\<exists>class_data s'.
            generate_class_data R s = (Inr (class_data, objectives), s')
            \<and> length class_data = 12
            \<and> list_all student_within_bounds class_data)
         \<and> (\<exists>r s'.
            generate_individual_student_data R n s = (Inr r, s')
            \<and> individual_within_bounds r)"
proof -
  obtain class_data s' where
    "generate_students R students s = (Inr class_data, s')"
    "length class_data = length students"
    "list_all student_within_bounds class_data"
    using generate_students_ok [OF assms, of students s] by blast
  then have "generate_class_data R s = (Inr (class_data, objectives), s')
             \<and> length class_data = 12 \<and> list_all student_within_bounds class_data"
    by (simp add: generate_class_data_def and_then_def result_def students_def)
  then show ?thesis
    using generate_individual_ok [OF assms, of n s] by blast
qed

theorem generated_records_within_bounds_witness:
  "random_contract tape_random
   \<and> (\<exists>class_data s'.
        generate_class_data tape_random [3, 1, 4, 1, 5, 9, 2, 6] = (Inr (class_data, objectives), s')
        \<and> length class_data = 12
        \<and> list_all student_within_bounds class_data)
   \<and> (\<exists>r s'.
        generate_individual_student_data tape_random ''Jayla Williams'' [3, 1, 4, 1, 5, 9, 2, 6]
          = (Inr r, s')
        \<and> individual_within_bounds r)"
  using generated_records_within_bounds [OF tape_random_contract,
      of "[3, 1, 4, 1, 5, 9, 2, 6]" "''Jayla Williams''"]
    tape_random_contract
  by simp

section \<open>Properties of the student report view\<close>








section \<open>Properties of the AI-support histogram\<close>

lemma support_counts_sum: "sum_list (support_counts levels) = int (length levels)"
  by (induction levels) (auto simp add: support_counts_def)

lemma support_counts_single:
  "support_counts [x] = [1, 0, 0] \<and> x < 0.4
   \<or> support_counts [x] = [0, 1, 0] \<and> 0.4 \<le> x \<and> x < 0.6
   \<or> support_counts [x] = [0, 0, 1] \<and> 0.6 \<le> x"
  by (auto simp add: support_counts_def)

text \<open>
  Claim C9. The histogram puts each support level into exactly one of the three bands
  (below 0.4, from 0.4 to below 0.6, from 0.6 on): a roster whose support levels are
  0.3, 0.5, 0.7 has the counts 1, 1, 1, and for every roster the three counts add up to
  the size of the roster.
\<close>

theorem support_buckets:
  "(support_levels class_data = [0.3, 0.5, 0.7] \<longrightarrow>
      support_counts (support_levels class_data) = [1, 1, 1])
   \<and> sum_list (support_counts (support_levels class_data)) = int (length class_data)
   \<and> (support_counts [x] = [1, 0, 0] \<and> x < 0.4
      \<or> support_counts [x] = [0, 1, 0] \<and> 0.4 \<le> x \<and> x < 0.6
      \<or> support_counts [x] = [0, 0, 1] \<and> 0.6 \<le> x)"
proof -
  have "support_counts [0.3, 0.5, 0.7] = [1, 1, 1]"
    by (simp add: support_counts_def)
  moreover have "sum_list (support_counts (support_levels class_data)) = int (length class_data)"
    by (simp add: support_counts_sum support_levels_def)
  ultimately show ?thesis using support_counts_single [of x] by simp
qed

theorem support_buckets_witness:
  "support_levels example_roster = [0.3, 0.5, 0.7]
   \<and> support_counts (support_levels example_roster) = [1, 1, 1]
   \<and> sum_list (support_counts (support_levels example_roster)) = int (length example_roster)
   \<and> support_counts [0.5] = [0, 1, 0]"
  using support_buckets [of example_roster "0.5"]
  by (simp add: example_roster_def support_levels_def student_with_support_def)

end
